theory Spec2Isabelle
  imports Complex_Main
begin

section \<open>JavaScript numbers\<close>

text \<open>
  The slider of \<^verbatim>\<open>src/plugins/flags.ts\<close> (the React component \<^verbatim>\<open>DynamicSlider\<close>)
  computes with JavaScript numbers. A number is modelled as a finite real, taken exactly,
  or one of the three non-finite values. What is not modelled: rounding, overflow and
  underflow of finite results, and the sign of zero (a division of a non-zero number by
  zero takes the sign of the numerator).
\<close>

datatype jsnum = Fin real | PInf | NInf | NaN

text \<open>
  Division, with the division by zero of JavaScript: \<^verbatim>\<open>0/0\<close> is NaN, any other
  number over zero is an infinity.
\<close>

fun js_divide :: "jsnum \<Rightarrow> jsnum \<Rightarrow> jsnum" where
  "js_divide (Fin a) (Fin b) =
     (if b = 0 then (if a = 0 then NaN else if 0 < a then PInf else NInf)
      else Fin (a / b))"
| "js_divide NaN _ = NaN"
| "js_divide _ NaN = NaN"
| "js_divide (Fin a) PInf = Fin 0"
| "js_divide (Fin a) NInf = Fin 0"
| "js_divide PInf (Fin b) = (if 0 \<le> b then PInf else NInf)"
| "js_divide NInf (Fin b) = (if 0 \<le> b then NInf else PInf)"
| "js_divide PInf PInf = NaN"
| "js_divide PInf NInf = NaN"
| "js_divide NInf PInf = NaN"
| "js_divide NInf NInf = NaN"

text \<open>The operators \<open>+\<close>, \<open>-\<close>, \<open>*\<close>, \<open>/\<close>, \<open><\<close> and \<open>\<le>\<close> of JavaScript on numbers.\<close>

instantiation jsnum :: "{plus, minus, uminus, times, inverse, ord}"
begin

fun uminus_jsnum :: "jsnum \<Rightarrow> jsnum" where
  "- Fin a = Fin (- a)"
| "- PInf = NInf"
| "- NInf = PInf"
| "- NaN = NaN"

fun plus_jsnum :: "jsnum \<Rightarrow> jsnum \<Rightarrow> jsnum" where
  "Fin a + Fin b = Fin (a + b)"
| "NaN + _ = NaN"
| "_ + NaN = NaN"
| "PInf + NInf = NaN"
| "NInf + PInf = NaN"
| "PInf + _ = PInf"
| "_ + PInf = PInf"
| "NInf + _ = NInf"
| "_ + NInf = NInf"

definition minus_jsnum :: "jsnum \<Rightarrow> jsnum \<Rightarrow> jsnum" where
  "minus_jsnum a b = a + (- b)"

fun times_jsnum :: "jsnum \<Rightarrow> jsnum \<Rightarrow> jsnum" where
  "Fin a * Fin b = Fin (a * b)"
| "NaN * _ = NaN"
| "_ * NaN = NaN"
| "PInf * Fin b = (if b = 0 then NaN else if 0 < b then PInf else NInf)"
| "NInf * Fin b = (if b = 0 then NaN else if 0 < b then NInf else PInf)"
| "Fin a * PInf = (if a = 0 then NaN else if 0 < a then PInf else NInf)"
| "Fin a * NInf = (if a = 0 then NaN else if 0 < a then NInf else PInf)"
| "PInf * PInf = PInf"
| "PInf * NInf = NInf"
| "NInf * PInf = NInf"
| "NInf * NInf = PInf"

definition divide_jsnum :: "jsnum \<Rightarrow> jsnum \<Rightarrow> jsnum" where
  "divide_jsnum a b = js_divide a b"

definition inverse_jsnum :: "jsnum \<Rightarrow> jsnum" where
  "inverse_jsnum a = js_divide (Fin 1) a"

fun less_jsnum :: "jsnum \<Rightarrow> jsnum \<Rightarrow> bool" where
  "Fin a < Fin b \<longleftrightarrow> a < b"
| "NaN < _ \<longleftrightarrow> False"
| "_ < NaN \<longleftrightarrow> False"
| "NInf < Fin b \<longleftrightarrow> True"
| "NInf < PInf \<longleftrightarrow> True"
| "Fin a < PInf \<longleftrightarrow> True"
| "NInf < NInf \<longleftrightarrow> False"
| "PInf < _ \<longleftrightarrow> False"
| "Fin a < NInf \<longleftrightarrow> False"

fun less_eq_jsnum :: "jsnum \<Rightarrow> jsnum \<Rightarrow> bool" where
  "Fin a \<le> Fin b \<longleftrightarrow> a \<le> b"
| "NaN \<le> _ \<longleftrightarrow> False"
| "_ \<le> NaN \<longleftrightarrow> False"
| "NInf \<le> _ \<longleftrightarrow> True"
| "_ \<le> PInf \<longleftrightarrow> True"
| "PInf \<le> _ \<longleftrightarrow> False"
| "Fin a \<le> NInf \<longleftrightarrow> False"

instance ..

end

text \<open>\<^verbatim>\<open>!x\<close> on a number: zero and NaN are falsy.\<close>

fun falsy :: "jsnum \<Rightarrow> bool" where
  "falsy (Fin a) \<longleftrightarrow> a = 0"
| "falsy NaN \<longleftrightarrow> True"
| "falsy PInf \<longleftrightarrow> False"
| "falsy NInf \<longleftrightarrow> False"



fun Math_abs :: "jsnum \<Rightarrow> jsnum" where
  "Math_abs (Fin a) = Fin \<bar>a\<bar>"
| "Math_abs PInf = PInf"
| "Math_abs NInf = PInf"
| "Math_abs NaN = NaN"

fun Math_exp :: "jsnum \<Rightarrow> jsnum" where
  "Math_exp (Fin a) = Fin (exp a)"
| "Math_exp PInf = PInf"
| "Math_exp NInf = Fin 0"
| "Math_exp NaN = NaN"

fun Math_max :: "jsnum \<Rightarrow> jsnum \<Rightarrow> jsnum" where
  "Math_max (Fin a) (Fin b) = Fin (max a b)"
| "Math_max NaN _ = NaN"
| "Math_max _ NaN = NaN"
| "Math_max PInf _ = PInf"
| "Math_max _ PInf = PInf"
| "Math_max NInf x = x"
| "Math_max x NInf = x"

fun Math_min :: "jsnum \<Rightarrow> jsnum \<Rightarrow> jsnum" where
  "Math_min (Fin a) (Fin b) = Fin (min a b)"
| "Math_min NaN _ = NaN"
| "Math_min _ NaN = NaN"
| "Math_min NInf _ = NInf"
| "Math_min _ NInf = NInf"
| "Math_min PInf x = x"
| "Math_min x PInf = x"

section \<open>Configuration and state of the slider\<close>

text \<open>
  \<^verbatim>\<open>SliderConfig\<close>, restricted to the fields the arithmetic reads (the arrow settings and
  the breakpoint tables only choose \<^verbatim>\<open>visibleItems\<close>, which is a field of the state).
  An optional field is an \<open>option\<close>; the optional boolean \<^verbatim>\<open>peek\<close> is only tested for
  truth, so \<^verbatim>\<open>undefined\<close> is \<open>False\<close>.
\<close>

datatype peek_amount = PeekNumber jsnum | PeekString string | PeekUndefined

record spring_config =
  stiffness :: jsnum
  damping :: jsnum
  mass :: jsnum

record virtualization_config =
  enabled :: bool
  overscan :: "jsnum option"

record slider_config =
  peek :: bool
  peekAmount :: peek_amount
  gap :: jsnum
  enableDrag :: bool
  dragThreshold :: jsnum
  springConfig :: spring_config
  virtualization :: "virtualization_config option"

text \<open>
  The closure \<^verbatim>\<open>animate\<close> that \<^verbatim>\<open>animateToOffset\<close> hands to
  \<^verbatim>\<open>requestAnimationFrame\<close>: the variables it captured.
\<close>

record animation =
  startOffset :: jsnum
  distance :: jsnum
  startTime :: jsnum

text \<open>Calls of the optional callback props, in the order they are made.\<close>

datatype callback = OnSlideChange jsnum | OnDragStart | OnDragEnd

text \<open>
  The state of one mounted slider between two renders: the props, the \<^verbatim>\<open>useState\<close>
  cells, the \<^verbatim>\<open>useRef\<close> cells, and the part of the browser the component talks to (the
  list of pending animation-frame callbacks with their handles, the next handle to
  give out) and the trace of callback-prop calls. Every handler below is one event:
  it reads the state of the last render and returns the state of the next one.
  Left out are the cells that no arithmetic reads (\<^verbatim>\<open>preventScroll\<close>, the card heights)
  and \<^verbatim>\<open>visibleRange\<close>, which an effect sets to \<^verbatim>\<open>calculateVisibleRange()\<close>.
\<close>

record slider =
  items :: "jsnum list"
  config :: slider_config
  hasOnSlideChange :: bool
  hasOnDragStart :: bool
  hasOnDragEnd :: bool
  containerWidth :: jsnum
  currentIndex :: jsnum
  isDragging :: bool
  visibleItems :: jsnum
  sliderOffset :: jsnum
  peekWidth :: jsnum
  dragStartRef :: jsnum
  dragCurrentRef :: jsnum
  animationRef :: nat
  pendingFrames :: "(nat \<times> animation) list"
  nextHandle :: nat
  calls :: "callback list"

text \<open>
  Of an item only its \<^verbatim>\<open>id\<close> is kept (a number here; the source also allows a string).
  \<^verbatim>\<open>items.length\<close> as a number:
\<close>

definition items_length :: "slider \<Rightarrow> jsnum" where
  "items_length s = Fin (real (length (items s)))"

section \<open>Item width and the visible range\<close>

definition getItemWidth :: "slider \<Rightarrow> jsnum" where
  "getItemWidth s =
     (if falsy (containerWidth s) then Fin 0
      else
        let peekSpace = (if peek (config s) then peekWidth s * Fin 2 else Fin 0);
            availableWidth = containerWidth s - peekSpace
        in (availableWidth - gap (config s) * (visibleItems s - Fin 1)) / visibleItems s)"



section \<open>Peek width\<close>

text \<open>
  \<^verbatim>\<open>parseFloat\<close> of ECMAScript on a string: leading white space is skipped, the longest
  prefix that is a decimal literal (an optional sign, then \<^verbatim>\<open>Infinity\<close>, or digits with an
  optional fraction and an optional exponent) is read, and the result is NaN when there is
  no such prefix. Strings are byte strings here, so only the ASCII white space is skipped.
\<close>

definition isWhiteSpace :: "char \<Rightarrow> bool" where
  "isWhiteSpace c \<longleftrightarrow> c \<in> set [CHR '' '', CHR 0x09, CHR 0x0A, CHR 0x0B, CHR 0x0C, CHR 0x0D]"

definition isDigit :: "char \<Rightarrow> bool" where
  "isDigit c \<longleftrightarrow> c \<in> set ''0123456789''"

definition digitsValue :: "string \<Rightarrow> nat" where
  "digitsValue ds = foldl (\<lambda>n c. 10 * n + (of_char c - 48)) 0 ds"

definition exponentPart :: "string \<Rightarrow> int" where
  "exponentPart str =
     (case str of
        [] \<Rightarrow> 0
      | c # cs \<Rightarrow>
          if c = CHR ''e'' \<or> c = CHR ''E'' then
            (case cs of
               [] \<Rightarrow> 0
             | d # ds \<Rightarrow>
                 if d = CHR ''-'' then - int (digitsValue (takeWhile isDigit ds))
                 else if d = CHR ''+'' then int (digitsValue (takeWhile isDigit ds))
                 else int (digitsValue (takeWhile isDigit cs)))
          else 0)"

definition parseFloat :: "string \<Rightarrow> jsnum" where
  "parseFloat str =
     (let trimmed = dropWhile isWhiteSpace str;
          negative = (trimmed \<noteq> [] \<and> hd trimmed = CHR ''-'');
          unsigned =
            (if trimmed \<noteq> [] \<and> (hd trimmed = CHR ''-'' \<or> hd trimmed = CHR ''+'')
             then tl trimmed else trimmed)
      in if take 8 unsigned = ''Infinity'' then (if negative then NInf else PInf)
         else
           let intDigits = takeWhile isDigit unsigned;
               rest = dropWhile isDigit unsigned;
               fracDigits =
                 (if rest \<noteq> [] \<and> hd rest = CHR ''.'' then takeWhile isDigit (tl rest) else []);
               rest' =
                 (if rest \<noteq> [] \<and> hd rest = CHR ''.'' then dropWhile isDigit (tl rest) else rest)
           in if intDigits = [] \<and> fracDigits = [] then NaN
              else
                let mantissa = real (digitsValue (intDigits @ fracDigits)) / 10 ^ length fracDigits;
                    e = exponentPart rest';
                    magnitude =
                      (if e < 0 then mantissa / 10 ^ nat (- e) else mantissa * 10 ^ nat e)
                in Fin (if negative then - magnitude else magnitude))"

text \<open>\<^verbatim>\<open>str.endsWith(suffix)\<close>.\<close>

definition endsWith :: "string \<Rightarrow> string \<Rightarrow> bool" where
  "endsWith str suffix \<longleftrightarrow>
     length suffix \<le> length str \<and> drop (length str - length suffix) str = suffix"

definition calculatePeekWidth :: "slider \<Rightarrow> jsnum \<Rightarrow> jsnum" where
  "calculatePeekWidth s width =
     (if \<not> peek (config s) then Fin 0
      else
        case peekAmount (config s) of
          PeekNumber n \<Rightarrow> n
        | PeekString str \<Rightarrow>
            if endsWith str ''%'' then
              let itemWidth =
                    (width - (visibleItems s - Fin 1) * gap (config s)) / visibleItems s
              in (itemWidth * parseFloat str) / Fin 100
            else Fin 0
        | PeekUndefined \<Rightarrow> Fin 0)"

section \<open>Animation frames\<close>

text \<open>
  \<^verbatim>\<open>requestAnimationFrame\<close> registers a callback under a fresh handle and returns the
  handle; \<^verbatim>\<open>cancelAnimationFrame\<close> removes the callback registered under a handle, if
  there is one.
\<close>

definition requestAnimationFrame :: "animation \<Rightarrow> slider \<Rightarrow> nat \<times> slider" where
  "requestAnimationFrame cb s =
     (nextHandle s,
      s\<lparr>pendingFrames := pendingFrames s @ [(nextHandle s, cb)],
        nextHandle := Suc (nextHandle s)\<rparr>)"

definition cancelAnimationFrame :: "nat \<Rightarrow> slider \<Rightarrow> slider" where
  "cancelAnimationFrame h s =
     s\<lparr>pendingFrames := filter (\<lambda>(h', cb). h' \<noteq> h) (pendingFrames s)\<rparr>"

text \<open>
  \<^verbatim>\<open>animateToOffset(targetOffset, immediate)\<close>; \<open>now\<close> is what \<^verbatim>\<open>performance.now()\<close>
  returns.
\<close>

definition animateToOffset :: "real \<Rightarrow> jsnum \<Rightarrow> bool \<Rightarrow> slider \<Rightarrow> slider" where
  "animateToOffset now targetOffset immediate s =
     (if immediate then s\<lparr>sliderOffset := targetOffset\<rparr>
      else
        let animate =
              \<lparr>startOffset = sliderOffset s,
               distance = targetOffset - sliderOffset s,
               startTime = Fin now\<rparr>;
            s1 = cancelAnimationFrame (animationRef s) s;
            (h, s2) = requestAnimationFrame animate s1
        in s2\<lparr>animationRef := h\<rparr>)"

text \<open>
  The frame callback \<^verbatim>\<open>animate(currentTime)\<close> of an animation. The spring settings are
  read from the configuration, which no handler changes.
\<close>

definition dampedProgress :: "spring_config \<Rightarrow> jsnum \<Rightarrow> jsnum" where
  "dampedProgress sc progress =
     (let springProgress = Fin 1 - Math_exp (((- stiffness sc) * progress) / mass sc)
      in springProgress * (Fin 1 - Math_exp ((- damping sc) * progress)))"

definition animate :: "animation \<Rightarrow> real \<Rightarrow> slider \<Rightarrow> slider" where
  "animate a currentTime s =
     (let elapsed = Fin currentTime - startTime a;
          progress = Math_min (elapsed / Fin 300) (Fin 1);
          newOffset = startOffset a + distance a * dampedProgress (springConfig (config s)) progress;
          s1 = s\<lparr>sliderOffset := newOffset\<rparr>
      in if progress < Fin 1
         then (let (h, s2) = requestAnimationFrame a s1 in s2\<lparr>animationRef := h\<rparr>)
         else s1)"

text \<open>
  One display refresh at time \<open>t\<close>: the browser takes the pending callbacks off its list
  and runs them in order; a callback registered meanwhile waits for the next refresh.
\<close>

definition runFrame :: "real \<Rightarrow> slider \<Rightarrow> slider" where
  "runFrame t s = fold (\<lambda>(h, a). animate a t) (pendingFrames s) (s\<lparr>pendingFrames := []\<rparr>)"

text \<open>
  At most one animation is pending, and \<^verbatim>\<open>animationRef\<close> holds its handle: the handles
  of the pending callbacks are none, or \<^verbatim>\<open>animationRef\<close> alone.
\<close>

definition one_animation :: "slider \<Rightarrow> bool" where
  "one_animation s \<longleftrightarrow>
     map fst (pendingFrames s) = [] \<or> map fst (pendingFrames s) = [animationRef s]"

text \<open>
  The animation \<open>a\<close> is the pending one, or it has finished and left the offset \<open>y\<close>.
\<close>

definition animating :: "animation \<Rightarrow> jsnum \<Rightarrow> slider \<Rightarrow> bool" where
  "animating a y s \<longleftrightarrow>
     pendingFrames s = [(animationRef s, a)] \<or> (pendingFrames s = [] \<and> sliderOffset s = y)"

section \<open>Navigation, drag and the imperative handle\<close>

text \<open>\<^verbatim>\<open>onSlideChange?.(index)\<close>, \<^verbatim>\<open>onDragStart?.()\<close> and \<^verbatim>\<open>onDragEnd?.()\<close>.\<close>

definition onSlideChange :: "jsnum \<Rightarrow> slider \<Rightarrow> slider" where
  "onSlideChange index s =
     (if hasOnSlideChange s then s\<lparr>calls := calls s @ [OnSlideChange index]\<rparr> else s)"

definition onDragStart :: "slider \<Rightarrow> slider" where
  "onDragStart s = (if hasOnDragStart s then s\<lparr>calls := calls s @ [OnDragStart]\<rparr> else s)"

definition onDragEnd :: "slider \<Rightarrow> slider" where
  "onDragEnd s = (if hasOnDragEnd s then s\<lparr>calls := calls s @ [OnDragEnd]\<rparr> else s)"

text \<open>
  The handlers. One that can start an animation takes \<open>now\<close>, the value of
  \<^verbatim>\<open>performance.now()\<close> at the call; a drag handler takes the \<^verbatim>\<open>clientX\<close> of its mouse
  event or first touch. \<open>peekAdjustment\<close> is the expression \<^verbatim>\<open>peek ? peekWidth : 0\<close>.
\<close>

definition peekAdjustment :: "slider \<Rightarrow> jsnum" where
  "peekAdjustment s = (if peek (config s) then peekWidth s else Fin 0)"

definition handleNext :: "real \<Rightarrow> slider \<Rightarrow> slider" where
  "handleNext now s =
     (let itemWidth = getItemWidth s;
          maxIndex = items_length s - visibleItems s;
          nextIndex = Math_min maxIndex (currentIndex s + Fin 1);
          targetOffset = - (nextIndex * (itemWidth + gap (config s))) + peekAdjustment s
      in onSlideChange nextIndex
           (animateToOffset now targetOffset False (s\<lparr>currentIndex := nextIndex\<rparr>)))"

definition handlePrevious :: "real \<Rightarrow> slider \<Rightarrow> slider" where
  "handlePrevious now s =
     (let itemWidth = getItemWidth s;
          prevIndex = Math_max (Fin 0) (currentIndex s - Fin 1);
          targetOffset = - (prevIndex * (itemWidth + gap (config s))) + peekAdjustment s
      in onSlideChange prevIndex
           (animateToOffset now targetOffset False (s\<lparr>currentIndex := prevIndex\<rparr>)))"

definition handleDragStart :: "real \<Rightarrow> slider \<Rightarrow> slider" where
  "handleDragStart clientX s =
     (if \<not> enableDrag (config s) then s
      else
        let s1 = s\<lparr>isDragging := True, dragStartRef := Fin clientX, dragCurrentRef := Fin clientX\<rparr>
        in onDragStart (cancelAnimationFrame (animationRef s1) s1))"


definition handleDragEnd :: "real \<Rightarrow> slider \<Rightarrow> slider" where
  "handleDragEnd now s =
     (if \<not> isDragging s \<or> \<not> enableDrag (config s) then s
      else
        let s1 = s\<lparr>isDragging := False\<rparr>;
            totalDrag = dragCurrentRef s1 - dragStartRef s1;
            itemWidth = getItemWidth s1
        in onDragEnd
             (if Math_abs totalDrag > itemWidth * dragThreshold (config s1) then
                (if totalDrag > Fin 0 then handlePrevious now s1 else handleNext now s1)
              else
                let targetOffset =
                      - (currentIndex s1 * (itemWidth + gap (config s1))) + peekAdjustment s1
                in animateToOffset now targetOffset False s1))"

definition scrollToIndex :: "real \<Rightarrow> jsnum \<Rightarrow> slider \<Rightarrow> slider" where
  "scrollToIndex now index s =
     (let itemWidth = getItemWidth s;
          targetOffset = - (index * (itemWidth + gap (config s))) + peekAdjustment s
      in onSlideChange index
           (animateToOffset now targetOffset False (s\<lparr>currentIndex := index\<rparr>)))"

definition getCurrentIndex :: "slider \<Rightarrow> jsnum" where
  "getCurrentIndex s = currentIndex s"

section \<open>The example of the specification\<close>

text \<open>
  Ten items, four visible, a gap of 8 and no peek; the container is 424 wide, which makes
  every item 100 wide. The other settings are those of \<^verbatim>\<open>defaultConfig\<close>. The slider is
  as it is after mounting and measuring: index 0, offset 0, no animation pending.
\<close>

definition exampleConfig :: slider_config where
  "exampleConfig =
     \<lparr>peek = False, peekAmount = PeekString ''20%'', gap = Fin 8, enableDrag = True,
      dragThreshold = Fin (2 / 10),
      springConfig = \<lparr>stiffness = Fin 150, damping = Fin 25, mass = Fin 1\<rparr>,
      virtualization = Some \<lparr>enabled = True, overscan = Some (Fin 2)\<rparr>\<rparr>"

definition exampleSlider :: slider where
  "exampleSlider =
     \<lparr>items = [Fin 1, Fin 2, Fin 3, Fin 4, Fin 5, Fin 6, Fin 7, Fin 8, Fin 9, Fin 10],
      config = exampleConfig,
      hasOnSlideChange = True, hasOnDragStart = False, hasOnDragEnd = False,
      containerWidth = Fin 424, currentIndex = Fin 0, isDragging = False,
      visibleItems = Fin 4, sliderOffset = Fin 0, peekWidth = Fin 0,
      dragStartRef = Fin 0, dragCurrentRef = Fin 0, animationRef = 0,
      pendingFrames = [], nextHandle = 1, calls = []\<rparr>"

section \<open>Arithmetic of finite numbers\<close>

declare minus_jsnum_def [simp] divide_jsnum_def [simp]

lemma Fin_minus_Fin [simp]: "Fin a - Fin b = Fin (a - b)"
  by simp

lemma damped_unit:
  fixes k d m p :: real
  assumes "0 < k" "0 < d" "0 < m" "0 \<le> p"
  shows "0 \<le> (1 - exp (- k * p / m)) * (1 - exp (- d * p))"
    and "(1 - exp (- k * p / m)) * (1 - exp (- d * p)) < 1"
proof -
  define A where "A = 1 - exp (- k * p / m)"
  define B where "B = 1 - exp (- d * p)"
  have "- k * p / m \<le> 0" using assms by (simp add: divide_nonpos_pos mult_nonneg_nonneg)
  then have "exp (- k * p / m) \<le> 1" by simp
  then have a: "0 \<le> A" "A < 1" by (simp_all add: A_def)
  have "- d * p \<le> 0" using assms by (simp add: mult_nonneg_nonneg)
  then have "exp (- d * p) \<le> 1" by simp
  then have b: "0 \<le> B" "B < 1" by (simp_all add: B_def)
  have ab: "0 \<le> A * B" using a b by simp
  have "A * B \<le> A * 1" using a b by (intro mult_left_mono) simp_all
  then have "A * B < 1" using a by simp
  with ab show "0 \<le> (1 - exp (- k * p / m)) * (1 - exp (- d * p))"
    and "(1 - exp (- k * p / m)) * (1 - exp (- d * p)) < 1"
    by (simp_all add: A_def B_def)
qed

lemma between_endpoints:
  fixes x0 x1 q :: real
  assumes "0 \<le> q" "q \<le> 1"
  shows "min x0 x1 \<le> x0 + (x1 - x0) * q" "x0 + (x1 - x0) * q \<le> max x0 x1"
proof -
  have eq: "x0 + (x1 - x0) * q = (1 - q) * x0 + q * x1" by (simp add: algebra_simps)
  have 1: "(1 - q) * min x0 x1 \<le> (1 - q) * x0" "q * min x0 x1 \<le> q * x1"
    using assms by (simp_all add: mult_left_mono)
  have 2: "(1 - q) * x0 \<le> (1 - q) * max x0 x1" "q * x1 \<le> q * max x0 x1"
    using assms by (simp_all add: mult_left_mono)
  have s1: "(1 - q) * min x0 x1 + q * min x0 x1 = min x0 x1" by (simp add: algebra_simps)
  have s2: "(1 - q) * max x0 x1 + q * max x0 x1 = max x0 x1" by (simp add: algebra_simps)
  show "min x0 x1 \<le> x0 + (x1 - x0) * q" using 1 s1 eq by linarith
  show "x0 + (x1 - x0) * q \<le> max x0 x1" using 2 s2 eq by linarith
qed

lemma dampedProgress_Fin:
  assumes "stiffness sc = Fin k" "damping sc = Fin d" "mass sc = Fin m" "m \<noteq> 0"
  shows "dampedProgress sc (Fin p) = Fin ((1 - exp (- k * p / m)) * (1 - exp (- d * p)))"
  using assms by (simp add: dampedProgress_def)

section \<open>Frames of one animation\<close>

lemma animateToOffset_start:
  assumes "one_animation s"
  shows "animateToOffset now x False s =
     s\<lparr>pendingFrames :=
         [(nextHandle s,
           \<lparr>startOffset = sliderOffset s, distance = x - sliderOffset s, startTime = Fin now\<rparr>)],
       nextHandle := Suc (nextHandle s), animationRef := nextHandle s\<rparr>"
  using assms
  by (auto simp: one_animation_def animateToOffset_def cancelAnimationFrame_def
      requestAnimationFrame_def)

lemma animate_fields:
  assumes "startTime a = Fin t0"
  shows "config (animate a t s) = config s"
    and "currentIndex (animate a t s) = currentIndex s"
    and "calls (animate a t s) = calls s"
    and "sliderOffset (animate a t s) =
      startOffset a + distance a *
        dampedProgress (springConfig (config s)) (Fin (if t < t0 + 300 then (t - t0) / 300 else 1))"
    and "pendingFrames (animate a t s) =
      (if t < t0 + 300 then pendingFrames s @ [(nextHandle s, a)] else pendingFrames s)"
    and "animationRef (animate a t s) = (if t < t0 + 300 then nextHandle s else animationRef s)"
proof -
  have "min ((t - t0) / 300) 1 = (if t < t0 + 300 then (t - t0) / 300 else 1)"
    by (simp add: min_def)
  then show "sliderOffset (animate a t s) =
      startOffset a + distance a *
        dampedProgress (springConfig (config s)) (Fin (if t < t0 + 300 then (t - t0) / 300 else 1))"
    using assms by (simp add: animate_def requestAnimationFrame_def Let_def split: prod.splits)
qed (use assms in \<open>simp_all add: animate_def requestAnimationFrame_def Let_def split: prod.splits\<close>)

lemma runFrame_animating:
  assumes a: "startTime a = Fin t0"
    and y: "startOffset a + distance a * dampedProgress (springConfig (config s)) (Fin 1) = y"
    and inv: "animating a y s"
  shows "animating a y (runFrame t s)"
    and "config (runFrame t s) = config s"
    and "currentIndex (runFrame t s) = currentIndex s"
    and "calls (runFrame t s) = calls s"
    and "t0 + 300 \<le> t \<Longrightarrow> pendingFrames (runFrame t s) = [] \<and> sliderOffset (runFrame t s) = y"
  using inv y
  by (auto simp: animating_def runFrame_def animate_fields [OF a])

lemma fold_runFrame_animating:
  assumes a: "startTime a = Fin t0"
    and y: "startOffset a + distance a * dampedProgress (springConfig (config s)) (Fin 1) = y"
    and inv: "animating a y s"
  shows "animating a y (fold runFrame ts s) \<and> config (fold runFrame ts s) = config s
    \<and> currentIndex (fold runFrame ts s) = currentIndex s \<and> calls (fold runFrame ts s) = calls s"
  using y inv
proof (induction ts arbitrary: s)
  case Nil
  then show ?case by simp
next
  case (Cons t ts)
  have 1: "animating a y (runFrame t s)" "config (runFrame t s) = config s"
    "currentIndex (runFrame t s) = currentIndex s" "calls (runFrame t s) = calls s"
    using runFrame_animating [OF a Cons.prems] by simp_all
  show ?case using Cons.IH [of "runFrame t s"] 1 Cons.prems by simp
qed


lemma scrollToIndex_start:
  assumes "one_animation s"
  shows "pendingFrames (scrollToIndex now i s) =
      [(nextHandle s,
        \<lparr>startOffset = sliderOffset s,
         distance = (- (i * (getItemWidth s + gap (config s))) + peekAdjustment s) - sliderOffset s,
         startTime = Fin now\<rparr>)]"
    and "animationRef (scrollToIndex now i s) = nextHandle s"
    and "currentIndex (scrollToIndex now i s) = i"
    and "config (scrollToIndex now i s) = config s"
    and "sliderOffset (scrollToIndex now i s) = sliderOffset s"
proof -
  have g: "getItemWidth (s\<lparr>currentIndex := i\<rparr>) = getItemWidth s"
    by (simp add: getItemWidth_def)
  have o: "one_animation (s\<lparr>currentIndex := i\<rparr>)"
    using assms by (simp add: one_animation_def)
  show "pendingFrames (scrollToIndex now i s) =
      [(nextHandle s,
        \<lparr>startOffset = sliderOffset s,
         distance = (- (i * (getItemWidth s + gap (config s))) + peekAdjustment s) - sliderOffset s,
         startTime = Fin now\<rparr>)]"
    and "animationRef (scrollToIndex now i s) = nextHandle s"
    and "currentIndex (scrollToIndex now i s) = i"
    and "config (scrollToIndex now i s) = config s"
    and "sliderOffset (scrollToIndex now i s) = sliderOffset s"
    by (simp_all add: scrollToIndex_def Let_def onSlideChange_def animateToOffset_start [OF o]
        peekAdjustment_def del: minus_jsnum_def)
qed

lemma scrollToIndex_settles_aux:
  assumes geom: "getItemWidth s = Fin w" "gap (config s) = Fin g" "peekAdjustment s = Fin pk"
    and off: "sliderOffset s = Fin x0"
    and spring: "stiffness (springConfig (config s)) = Fin k"
      "damping (springConfig (config s)) = Fin d" "mass (springConfig (config s)) = Fin m" "m \<noteq> 0"
    and one: "one_animation s"
    and time: "now + 300 \<le> t"
  shows "getCurrentIndex (runFrame t (fold runFrame ts (scrollToIndex now (Fin i) s))) = Fin i"
    and "pendingFrames (runFrame t (fold runFrame ts (scrollToIndex now (Fin i) s))) = []"
    and "sliderOffset (runFrame t (fold runFrame ts (scrollToIndex now (Fin i) s))) =
      Fin (x0 + ((- (i * (w + g)) + pk) - x0) * ((1 - exp (- k / m)) * (1 - exp (- d))))"
proof -
  define a where "a = \<lparr>startOffset = Fin x0,
         distance = Fin ((- (i * (w + g)) + pk) - x0), startTime = Fin now\<rparr>"
  define y where "y = Fin (x0 + ((- (i * (w + g)) + pk) - x0) * ((1 - exp (- k / m)) * (1 - exp (- d))))"
  define s1 where "s1 = scrollToIndex now (Fin i) s"
  define s2 where "s2 = fold runFrame ts s1"
  have s1: "pendingFrames s1 = [(animationRef s1, a)]" "currentIndex s1 = Fin i" "config s1 = config s"
    using scrollToIndex_start [OF one, of now "Fin i"] geom off by (simp_all add: s1_def a_def)
  have t0: "startTime a = Fin now" by (simp add: a_def)
  have y: "startOffset a + distance a * dampedProgress (springConfig (config s1)) (Fin 1) = y"
    using dampedProgress_Fin [OF spring, of 1] s1 by (simp add: a_def y_def)
  have inv1: "animating a y s1" using s1 by (simp add: animating_def)
  have s2: "animating a y s2" "config s2 = config s1" "currentIndex s2 = currentIndex s1"
    using fold_runFrame_animating [OF t0 y inv1, of ts] by (simp_all add: s2_def)
  have y2: "startOffset a + distance a * dampedProgress (springConfig (config s2)) (Fin 1) = y"
    using y s2 by simp
  have "currentIndex (runFrame t s2) = Fin i"
    using runFrame_animating(3) [OF t0 y2 s2(1), of t] s2 s1 by simp
  moreover have "pendingFrames (runFrame t s2) = [] \<and> sliderOffset (runFrame t s2) = y"
    using runFrame_animating(5) [OF t0 y2 s2(1) time] .
  ultimately show
    "getCurrentIndex (runFrame t (fold runFrame ts (scrollToIndex now (Fin i) s))) = Fin i"
    and "pendingFrames (runFrame t (fold runFrame ts (scrollToIndex now (Fin i) s))) = []"
    and "sliderOffset (runFrame t (fold runFrame ts (scrollToIndex now (Fin i) s))) =
      Fin (x0 + ((- (i * (w + g)) + pk) - x0) * ((1 - exp (- k / m)) * (1 - exp (- d))))"
    by (simp_all add: getCurrentIndex_def s2_def s1_def y_def)
qed

lemma settle_not_target:
  fixes k d m x0 x1 :: real
  assumes "0 < k" "0 < d" "0 < m"
  shows "x0 + (x1 - x0) * ((1 - exp (- k / m)) * (1 - exp (- d))) = x1 \<longleftrightarrow> x0 = x1"
proof -
  define q where "q = (1 - exp (- k / m)) * (1 - exp (- d))"
  have "q < 1" using damped_unit(2) [of k d m 1] assms by (simp add: q_def)
  have "x0 + (x1 - x0) * q = x1 \<longleftrightarrow> (x1 - x0) * (q - 1) = 0" by (simp add: algebra_simps)
  also have "\<dots> \<longleftrightarrow> x0 = x1" using \<open>q < 1\<close> by auto
  finally show ?thesis by (simp add: q_def)
qed

lemma example_facts:
  "getItemWidth exampleSlider = Fin 100" "gap (config exampleSlider) = Fin 8"
  "peekAdjustment exampleSlider = Fin 0" "sliderOffset exampleSlider = Fin 0"
  "stiffness (springConfig (config exampleSlider)) = Fin 150"
  "damping (springConfig (config exampleSlider)) = Fin 25"
  "mass (springConfig (config exampleSlider)) = Fin 1"
  "one_animation exampleSlider"
  by (simp_all add: getItemWidth_def peekAdjustment_def one_animation_def exampleSlider_def
      exampleConfig_def)

section \<open>What the handlers change\<close>

lemma animateToOffset_fields:
  "pendingFrames (animateToOffset now x False s) =
      filter (\<lambda>(h', cb). h' \<noteq> animationRef s) (pendingFrames s) @
      [(nextHandle s,
        \<lparr>startOffset = sliderOffset s, distance = x - sliderOffset s, startTime = Fin now\<rparr>)]"
  "animationRef (animateToOffset now x False s) = nextHandle s"
  "nextHandle (animateToOffset now x False s) = Suc (nextHandle s)"
  "currentIndex (animateToOffset now x False s) = currentIndex s"
  "sliderOffset (animateToOffset now x False s) = sliderOffset s"
  "calls (animateToOffset now x False s) = calls s"
  "config (animateToOffset now x False s) = config s"
  "hasOnSlideChange (animateToOffset now x False s) = hasOnSlideChange s"
  "hasOnDragEnd (animateToOffset now x False s) = hasOnDragEnd s"
  by (simp_all add: animateToOffset_def cancelAnimationFrame_def requestAnimationFrame_def
      del: minus_jsnum_def)

lemma onSlideChange_fields:
  "pendingFrames (onSlideChange i s) = pendingFrames s"
  "animationRef (onSlideChange i s) = animationRef s"
  "nextHandle (onSlideChange i s) = nextHandle s"
  "currentIndex (onSlideChange i s) = currentIndex s"
  "sliderOffset (onSlideChange i s) = sliderOffset s"
  "config (onSlideChange i s) = config s"
  "hasOnDragEnd (onSlideChange i s) = hasOnDragEnd s"
  "calls (onSlideChange i s) = (if hasOnSlideChange s then calls s @ [OnSlideChange i] else calls s)"
  by (simp_all add: onSlideChange_def)

lemma getItemWidth_cong:
  "getItemWidth (s\<lparr>currentIndex := i\<rparr>) = getItemWidth s"
  "getItemWidth (s\<lparr>isDragging := b\<rparr>) = getItemWidth s"
  "peekAdjustment (s\<lparr>currentIndex := i\<rparr>) = peekAdjustment s"
  "peekAdjustment (s\<lparr>isDragging := b\<rparr>) = peekAdjustment s"
  "items_length (s\<lparr>isDragging := b\<rparr>) = items_length s"
  by (simp_all add: getItemWidth_def peekAdjustment_def items_length_def)

lemma handleNext_fields:
  "currentIndex (handleNext now s) = Math_min (items_length s - visibleItems s) (currentIndex s + Fin 1)"
  "calls (handleNext now s) =
     (if hasOnSlideChange s then calls s @ [OnSlideChange (currentIndex (handleNext now s))]
      else calls s)"
  "animationRef (handleNext now s) = nextHandle s"
  "pendingFrames (handleNext now s) =
      filter (\<lambda>(h', cb). h' \<noteq> animationRef s) (pendingFrames s) @
      [(nextHandle s,
        \<lparr>startOffset = sliderOffset s,
         distance = (- (currentIndex (handleNext now s) * (getItemWidth s + gap (config s)))
                     + peekAdjustment s) - sliderOffset s,
         startTime = Fin now\<rparr>)]"
  "sliderOffset (handleNext now s) = sliderOffset s"
  "hasOnDragEnd (handleNext now s) = hasOnDragEnd s"
  by (simp_all add: handleNext_def Let_def onSlideChange_fields animateToOffset_fields
      getItemWidth_cong del: minus_jsnum_def)

lemma handlePrevious_fields:
  "currentIndex (handlePrevious now s) = Math_max (Fin 0) (currentIndex s - Fin 1)"
  "calls (handlePrevious now s) =
     (if hasOnSlideChange s then calls s @ [OnSlideChange (currentIndex (handlePrevious now s))]
      else calls s)"
  "animationRef (handlePrevious now s) = nextHandle s"
  "pendingFrames (handlePrevious now s) =
      filter (\<lambda>(h', cb). h' \<noteq> animationRef s) (pendingFrames s) @
      [(nextHandle s,
        \<lparr>startOffset = sliderOffset s,
         distance = (- (currentIndex (handlePrevious now s) * (getItemWidth s + gap (config s)))
                     + peekAdjustment s) - sliderOffset s,
         startTime = Fin now\<rparr>)]"
  "sliderOffset (handlePrevious now s) = sliderOffset s"
  "hasOnDragEnd (handlePrevious now s) = hasOnDragEnd s"
  by (simp_all add: handlePrevious_def Let_def onSlideChange_fields animateToOffset_fields
      getItemWidth_cong del: minus_jsnum_def)

lemma onDragEnd_fields:
  "pendingFrames (onDragEnd s) = pendingFrames s"
  "animationRef (onDragEnd s) = animationRef s"
  "currentIndex (onDragEnd s) = currentIndex s"
  "sliderOffset (onDragEnd s) = sliderOffset s"
  "isDragging (onDragEnd s) = isDragging s"
  by (simp_all add: onDragEnd_def)

lemma handleDragEnd_unfold:
  assumes "isDragging s" "enableDrag (config s)"
    and "dragStartRef s = Fin b" "dragCurrentRef s = Fin c"
    and "getItemWidth s = Fin w" "dragThreshold (config s) = Fin th"
  shows "handleDragEnd now s =
     onDragEnd
       (if w * th < \<bar>c - b\<bar> then
          (if 0 < c - b then handlePrevious now (s\<lparr>isDragging := False\<rparr>)
           else handleNext now (s\<lparr>isDragging := False\<rparr>))
        else
          animateToOffset now
            (- (currentIndex s * (Fin w + gap (config s))) + peekAdjustment s) False
            (s\<lparr>isDragging := False\<rparr>))"
  using assms by (simp add: handleDragEnd_def Let_def getItemWidth_cong)

lemma navigation_keeps_isDragging:
  "isDragging (handleNext now s) = isDragging s"
  "isDragging (handlePrevious now s) = isDragging s"
  "isDragging (animateToOffset now x False s) = isDragging s"
  by (simp_all add: handleNext_def handlePrevious_def Let_def onSlideChange_def animateToOffset_def
      cancelAnimationFrame_def requestAnimationFrame_def)

lemma animate_keeps:
  "config (animate a t s) = config s"
  "items (animate a t s) = items s"
  "containerWidth (animate a t s) = containerWidth s"
  "visibleItems (animate a t s) = visibleItems s"
  "peekWidth (animate a t s) = peekWidth s"
  "currentIndex (animate a t s) = currentIndex s"
  "hasOnSlideChange (animate a t s) = hasOnSlideChange s"
  "calls (animate a t s) = calls s"
  by (simp_all add: animate_def requestAnimationFrame_def Let_def split: prod.splits)

lemma fold_animate_keeps:
  "config (fold (\<lambda>(h, a). animate a t) ps s) = config s
   \<and> items (fold (\<lambda>(h, a). animate a t) ps s) = items s
   \<and> containerWidth (fold (\<lambda>(h, a). animate a t) ps s) = containerWidth s
   \<and> visibleItems (fold (\<lambda>(h, a). animate a t) ps s) = visibleItems s
   \<and> peekWidth (fold (\<lambda>(h, a). animate a t) ps s) = peekWidth s
   \<and> currentIndex (fold (\<lambda>(h, a). animate a t) ps s) = currentIndex s
   \<and> hasOnSlideChange (fold (\<lambda>(h, a). animate a t) ps s) = hasOnSlideChange s
   \<and> calls (fold (\<lambda>(h, a). animate a t) ps s) = calls s"
proof (induction ps arbitrary: s)
  case Nil
  then show ?case by simp
next
  case (Cons p ps)
  obtain h a where p: "p = (h, a)" by (cases p)
  show ?case using Cons.IH [of "animate a t s"] by (simp add: p animate_keeps)
qed

lemma runFrame_keeps:
  "config (runFrame t s) = config s"
  "items (runFrame t s) = items s"
  "containerWidth (runFrame t s) = containerWidth s"
  "visibleItems (runFrame t s) = visibleItems s"
  "peekWidth (runFrame t s) = peekWidth s"
  "currentIndex (runFrame t s) = currentIndex s"
  "hasOnSlideChange (runFrame t s) = hasOnSlideChange s"
  "calls (runFrame t s) = calls s"
  using fold_animate_keeps [of t "pendingFrames s" "s\<lparr>pendingFrames := []\<rparr>"]
  by (simp_all add: runFrame_def)

lemma fold_runFrame_keeps:
  "config (fold runFrame ts s) = config s
   \<and> items (fold runFrame ts s) = items s
   \<and> containerWidth (fold runFrame ts s) = containerWidth s
   \<and> visibleItems (fold runFrame ts s) = visibleItems s
   \<and> peekWidth (fold runFrame ts s) = peekWidth s
   \<and> currentIndex (fold runFrame ts s) = currentIndex s
   \<and> hasOnSlideChange (fold runFrame ts s) = hasOnSlideChange s
   \<and> calls (fold runFrame ts s) = calls s"
proof (induction ts arbitrary: s)
  case Nil
  then show ?case by simp
next
  case (Cons t ts)
  show ?case using Cons.IH [of "runFrame t s"] by (simp add: runFrame_keeps)
qed

lemma geometry_cong:
  assumes "config s' = config s" "items s' = items s" "containerWidth s' = containerWidth s"
    "visibleItems s' = visibleItems s" "peekWidth s' = peekWidth s"
  shows "getItemWidth s' = getItemWidth s" "items_length s' = items_length s"
    "peekAdjustment s' = peekAdjustment s"
  using assms by (simp_all add: getItemWidth_def items_length_def peekAdjustment_def)

lemma handleNext_after_frames:
  "currentIndex (handleNext now (fold runFrame ts s)) =
     Math_min (items_length s - visibleItems s) (currentIndex s + Fin 1)"
  "calls (handleNext now (fold runFrame ts s)) =
     (if hasOnSlideChange s
      then calls s @ [OnSlideChange (Math_min (items_length s - visibleItems s) (currentIndex s + Fin 1))]
      else calls s)"
  "last (pendingFrames (handleNext now (fold runFrame ts s))) =
     (nextHandle (fold runFrame ts s),
      \<lparr>startOffset = sliderOffset (fold runFrame ts s),
       distance =
         (- (Math_min (items_length s - visibleItems s) (currentIndex s + Fin 1)
              * (getItemWidth s + gap (config s))) + peekAdjustment s)
         - sliderOffset (fold runFrame ts s),
       startTime = Fin now\<rparr>)"
  "config (handleNext now (fold runFrame ts s)) = config s"
  "items (handleNext now (fold runFrame ts s)) = items s"
  "containerWidth (handleNext now (fold runFrame ts s)) = containerWidth s"
  "visibleItems (handleNext now (fold runFrame ts s)) = visibleItems s"
  "peekWidth (handleNext now (fold runFrame ts s)) = peekWidth s"
  "hasOnSlideChange (handleNext now (fold runFrame ts s)) = hasOnSlideChange s"
proof -
  note k = fold_runFrame_keeps [of ts s]
  note g = geometry_cong [of "fold runFrame ts s" s]
  show "currentIndex (handleNext now (fold runFrame ts s)) =
     Math_min (items_length s - visibleItems s) (currentIndex s + Fin 1)"
    and "calls (handleNext now (fold runFrame ts s)) =
     (if hasOnSlideChange s
      then calls s @ [OnSlideChange (Math_min (items_length s - visibleItems s) (currentIndex s + Fin 1))]
      else calls s)"
    and "last (pendingFrames (handleNext now (fold runFrame ts s))) =
     (nextHandle (fold runFrame ts s),
      \<lparr>startOffset = sliderOffset (fold runFrame ts s),
       distance =
         (- (Math_min (items_length s - visibleItems s) (currentIndex s + Fin 1)
              * (getItemWidth s + gap (config s))) + peekAdjustment s)
         - sliderOffset (fold runFrame ts s),
       startTime = Fin now\<rparr>)"
    using k g by (simp_all add: handleNext_fields del: minus_jsnum_def)
  show "config (handleNext now (fold runFrame ts s)) = config s"
    "items (handleNext now (fold runFrame ts s)) = items s"
    "containerWidth (handleNext now (fold runFrame ts s)) = containerWidth s"
    "visibleItems (handleNext now (fold runFrame ts s)) = visibleItems s"
    "peekWidth (handleNext now (fold runFrame ts s)) = peekWidth s"
    "hasOnSlideChange (handleNext now (fold runFrame ts s)) = hasOnSlideChange s"
    using k
    by (simp_all add: handleNext_def Let_def onSlideChange_def animateToOffset_def
        cancelAnimationFrame_def requestAnimationFrame_def)
qed


lemma handleDragStart_cancels:
  assumes "one_animation s" "enableDrag (config s)"
  shows "pendingFrames (handleDragStart x s) = []"
  using assms
  by (auto simp: one_animation_def handleDragStart_def Let_def onDragStart_def
      cancelAnimationFrame_def)

lemma calculatePeekWidth_no_percent_sign:
  assumes "\<not> endsWith str ''%''" "peekAmount (config s) = PeekString str"
  shows "calculatePeekWidth s width = Fin 0"
  using assms by (simp add: calculatePeekWidth_def)

section \<open>The visible range\<close>




section \<open>Starting an animation\<close>




section \<open>Scrolling to an index\<close>

text \<open>
  Claim C3 says that after \<^verbatim>\<open>scrollToIndex(i)\<close> and the animation's last frame the offset
  is exactly \<open>- (i * (itemWidth + gap))\<close> plus the peek adjustment. It is not: at progress 1
  the easing factor is \<open>(1 - exp (- stiffness / mass)) * (1 - exp (- damping))\<close>, which is
  below 1. In the example, \<^verbatim>\<open>scrollToIndex(1)\<close> from offset 0 ends at an offset other than
  \<open>-108\<close>.
\<close>

theorem scrollToIndex_counterexample:
  "getCurrentIndex (runFrame 300 (scrollToIndex 0 (Fin 1) exampleSlider)) = Fin 1
   \<and> sliderOffset (runFrame 300 (scrollToIndex 0 (Fin 1) exampleSlider)) \<noteq> Fin (- (1 * (100 + 8)) + 0)"
proof -
  have "sliderOffset (runFrame 300 (fold runFrame [] (scrollToIndex 0 (Fin 1) exampleSlider))) =
      Fin (0 + ((- (1 * (100 + 8)) + 0) - 0) * ((1 - exp (- 150 / 1)) * (1 - exp (- 25))))"
    by (rule scrollToIndex_settles_aux(3) [OF example_facts(1-7) _ example_facts(8)]) simp_all
  moreover have "0 + ((- (1 * (100 + 8)) + 0) - 0) * ((1 - exp (- 150 / 1)) * (1 - exp (- 25)))
      \<noteq> (- (1 * (100 + 8)) + 0 :: real)"
    using settle_not_target [of 150 25 1 0 "- (1 * (100 + 8)) + 0"] by simp
  moreover have "getCurrentIndex (runFrame 300 (fold runFrame [] (scrollToIndex 0 (Fin 1) exampleSlider))) = Fin 1"
    by (rule scrollToIndex_settles_aux(1) [OF example_facts(1-7) _ example_facts(8)]) simp_all
  ultimately show ?thesis by simp
qed

text \<open>
  Claim C3, amended: after \<^verbatim>\<open>scrollToIndex(i)\<close>, any frames, and a frame at least 300 time
  units after the call, \<^verbatim>\<open>getCurrentIndex()\<close> is \<open>i\<close>, no frame is pending, and the offset
  is \<open>start + (target - start) * (1 - exp (- stiffness / mass)) * (1 - exp (- damping))\<close>,
  where \<open>target\<close> is \<open>- (i * (itemWidth + gap))\<close> plus \<open>peekWidth\<close> when peek is enabled
  (plus 0 otherwise) and \<open>start\<close> is the offset at the call.
\<close>

theorem scrollToIndex_settles:
  assumes geom: "getItemWidth s = Fin w" "gap (config s) = Fin g" "peekWidth s = Fin pw"
    and off: "sliderOffset s = Fin x0"
    and spring: "stiffness (springConfig (config s)) = Fin k"
      "damping (springConfig (config s)) = Fin d" "mass (springConfig (config s)) = Fin m"
      "m \<noteq> 0"
    and one: "one_animation s"
    and time: "now + 300 \<le> t"
  shows "let s' = runFrame t (fold runFrame ts (scrollToIndex now (Fin i) s));
             target = - (i * (w + g)) + (if peek (config s) then pw else 0)
         in getCurrentIndex s' = Fin i \<and> pendingFrames s' = []
            \<and> sliderOffset s' =
                Fin (x0 + (target - x0) * ((1 - exp (- k / m)) * (1 - exp (- d))))"
proof -
  have pk: "peekAdjustment s = Fin (if peek (config s) then pw else 0)"
    using geom(3) by (simp add: peekAdjustment_def)
  show ?thesis
    using scrollToIndex_settles_aux [OF geom(1,2) pk off spring one time, of ts i]
    by (simp add: Let_def)
qed

theorem scrollToIndex_settles_witness:
  "getItemWidth (exampleSlider\<lparr>config := exampleConfig\<lparr>peek := True\<rparr>, peekWidth := Fin 10\<rparr>) = Fin 95
   \<and> getCurrentIndex (runFrame 320 (fold runFrame [16, 160]
        (scrollToIndex 0 (Fin 2)
           (exampleSlider\<lparr>config := exampleConfig\<lparr>peek := True\<rparr>, peekWidth := Fin 10\<rparr>)))) = Fin 2
   \<and> pendingFrames (runFrame 320 (fold runFrame [16, 160]
        (scrollToIndex 0 (Fin 2)
           (exampleSlider\<lparr>config := exampleConfig\<lparr>peek := True\<rparr>, peekWidth := Fin 10\<rparr>)))) = []
   \<and> sliderOffset (runFrame 320 (fold runFrame [16, 160]
        (scrollToIndex 0 (Fin 2)
           (exampleSlider\<lparr>config := exampleConfig\<lparr>peek := True\<rparr>, peekWidth := Fin 10\<rparr>))))
       = Fin (- 196 * ((1 - exp (- 150)) * (1 - exp (- 25))))"
proof -
  have w: "getItemWidth (exampleSlider\<lparr>config := exampleConfig\<lparr>peek := True\<rparr>, peekWidth := Fin 10\<rparr>) = Fin 95"
    by (simp add: getItemWidth_def exampleSlider_def exampleConfig_def)
  show ?thesis
    using w scrollToIndex_settles
      [of "exampleSlider\<lparr>config := exampleConfig\<lparr>peek := True\<rparr>, peekWidth := Fin 10\<rparr>"
          95 8 10 0 150 25 1 0 320 "[16, 160]" 2, OF w]
    by (simp add: Let_def one_animation_def exampleSlider_def exampleConfig_def)
qed

section \<open>The end of a drag\<close>

text \<open>
  Claim C4 says that a drag whose magnitude is at least \<open>itemWidth * dragThreshold\<close> moves
  the slider by one index. The comparison in \<^verbatim>\<open>handleDragEnd\<close> is strict: with items 100
  wide and a threshold of one half, a drag of exactly 50 to the left from index 2 leaves
  the index at 2.
\<close>

theorem handleDragEnd_threshold_counterexample:
  "getItemWidth (exampleSlider\<lparr>currentIndex := Fin 2, isDragging := True,
         dragStartRef := Fin 200, dragCurrentRef := Fin 150,
         config := exampleConfig\<lparr>dragThreshold := Fin (1 / 2)\<rparr>\<rparr>) * Fin (1 / 2)
     \<le> Math_abs (Fin 150 - Fin 200)
   \<and> items_length exampleSlider - visibleItems exampleSlider = Fin 6
   \<and> currentIndex (handleDragEnd 0
        (exampleSlider\<lparr>currentIndex := Fin 2, isDragging := True,
           dragStartRef := Fin 200, dragCurrentRef := Fin 150,
           config := exampleConfig\<lparr>dragThreshold := Fin (1 / 2)\<rparr>\<rparr>)) = Fin 2"
  by (simp add: handleDragEnd_def Let_def onDragEnd_def animateToOffset_def cancelAnimationFrame_def
      requestAnimationFrame_def getItemWidth_def peekAdjustment_def items_length_def
      exampleSlider_def exampleConfig_def)

text \<open>
  Claim C4, amended: at the end of a drag (dragging, drag enabled, finite numbers), if the
  magnitude \<open>\<bar>dragCurrent - dragStart\<bar>\<close> is strictly greater than
  \<open>itemWidth * dragThreshold\<close> the index becomes \<open>max(0, currentIndex - 1)\<close> for a drag to the
  right and \<open>min(items.length - visibleItems, currentIndex + 1)\<close> otherwise; if the magnitude
  is smaller or equal the index is unchanged. In every case an animation is started towards
  \<open>- (index * (itemWidth + gap))\<close> plus the peek adjustment, for the resulting index.
\<close>

theorem handleDragEnd_threshold:
  assumes "isDragging s" "enableDrag (config s)"
    and "dragStartRef s = Fin b" "dragCurrentRef s = Fin c"
    and "getItemWidth s = Fin w" "dragThreshold (config s) = Fin th"
  shows "let s' = handleDragEnd now s in
     currentIndex s' =
       (if w * th < \<bar>c - b\<bar> then
          (if 0 < c - b then Math_max (Fin 0) (currentIndex s - Fin 1)
           else Math_min (items_length s - visibleItems s) (currentIndex s + Fin 1))
        else currentIndex s)
     \<and> last (pendingFrames s') =
         (nextHandle s,
          \<lparr>startOffset = sliderOffset s,
           distance = (- (currentIndex s' * (Fin w + gap (config s))) + peekAdjustment s)
                       - sliderOffset s,
           startTime = Fin now\<rparr>)
     \<and> \<not> isDragging s'"
  using assms(5)
  by (simp add: handleDragEnd_unfold [OF assms] Let_def onDragEnd_fields handleNext_fields
      handlePrevious_fields animateToOffset_fields getItemWidth_cong navigation_keeps_isDragging
      del: minus_jsnum_def)

theorem handleDragEnd_threshold_witness:
  "currentIndex (handleDragEnd 0
      (exampleSlider\<lparr>currentIndex := Fin 2, isDragging := True,
         dragStartRef := Fin 200, dragCurrentRef := Fin 150\<rparr>)) = Fin 3
   \<and> currentIndex (handleDragEnd 0
      (exampleSlider\<lparr>currentIndex := Fin 2, isDragging := True,
         dragStartRef := Fin 200, dragCurrentRef := Fin 190\<rparr>)) = Fin 2"
  using handleDragEnd_threshold [of "exampleSlider\<lparr>currentIndex := Fin 2, isDragging := True,
         dragStartRef := Fin 200, dragCurrentRef := Fin 150\<rparr>" 200 150 100 "2 / 10" 0]
    handleDragEnd_threshold [of "exampleSlider\<lparr>currentIndex := Fin 2, isDragging := True,
         dragStartRef := Fin 200, dragCurrentRef := Fin 190\<rparr>" 200 190 100 "2 / 10" 0]
  by (simp add: Let_def getItemWidth_def items_length_def exampleSlider_def exampleConfig_def)

section \<open>Malformed peek amounts\<close>

text \<open>
  Claim C6 says that a malformed percentage string gives a peek width of zero. A string
  that does not end in \<^verbatim>\<open>%\<close> does (\<open>calculatePeekWidth_no_percent_sign\<close>). A string that
  ends in \<^verbatim>\<open>%\<close> but does not start with a number, such as \<^verbatim>\<open>abc%\<close>, gives NaN:
  \<^verbatim>\<open>parseFloat\<close> returns NaN and the result is \<^verbatim>\<open>(itemWidth * NaN) / 100\<close>.
\<close>

theorem calculatePeekWidth_unparsable_percentage:
  "calculatePeekWidth
     (exampleSlider\<lparr>config := exampleConfig\<lparr>peek := True, peekAmount := PeekString ''abc%''\<rparr>\<rparr>)
     (Fin 424) = NaN"
  by (simp add: calculatePeekWidth_def endsWith_def parseFloat_def isWhiteSpace_def isDigit_def
      exampleSlider_def exampleConfig_def)

section \<open>The easing curve\<close>

text \<open>
  Claim C7: for positive stiffness, damping and mass, the offset that a frame of an
  animation from \<open>x0\<close> to \<open>x1\<close> writes lies between \<open>x0\<close> and \<open>x1\<close>, whenever the frame's
  time is not before the start of the animation (so that the progress is in \<open>[0, 1]\<close>).
\<close>

theorem animate_no_overshoot:
  assumes spring: "stiffness (springConfig (config s)) = Fin k"
      "damping (springConfig (config s)) = Fin d" "mass (springConfig (config s)) = Fin m"
      "0 < k" "0 < d" "0 < m"
    and anim: "startOffset a = Fin x0" "distance a = Fin x1 - Fin x0" "startTime a = Fin t0"
    and time: "t0 \<le> t"
  shows "\<exists>y. sliderOffset (animate a t s) = Fin y \<and> min x0 x1 \<le> y \<and> y \<le> max x0 x1"
proof -
  define p where "p = min ((t - t0) / 300) 1"
  define q where "q = (1 - exp (- k * p / m)) * (1 - exp (- d * p))"
  have p: "0 \<le> p" "p \<le> 1" using time by (simp_all add: p_def)
  have q: "0 \<le> q" "q \<le> 1"
    using damped_unit [of k d m p] spring p by (simp_all add: q_def)
  have dp: "dampedProgress (springConfig (config s)) (Fin p) = Fin q"
    using dampedProgress_Fin [of "springConfig (config s)" k d m p] spring by (simp add: q_def)
  have "sliderOffset (animate a t s) = Fin (x0 + (x1 - x0) * q)"
    using anim dp
    by (simp add: animate_def Let_def requestAnimationFrame_def p_def split: prod.splits)
  then show ?thesis using between_endpoints [of q x0 x1] q by simp
qed

theorem animate_no_overshoot_witness:
  "\<exists>y. sliderOffset
          (animate \<lparr>startOffset = Fin 0, distance = Fin (- 108) - Fin 0, startTime = Fin 0\<rparr> 150
             exampleSlider) = Fin y
       \<and> - 108 \<le> y \<and> y \<le> 0"
  using animate_no_overshoot
    [of exampleSlider 150 25 1
        "\<lparr>startOffset = Fin 0, distance = Fin (- 108) - Fin 0, startTime = Fin 0\<rparr>" 0 "- 108" 0 150]
  by (simp add: exampleSlider_def exampleConfig_def)

section \<open>Next and previous\<close>

text \<open>
  Claim C5 says that \<^verbatim>\<open>next()\<close> at the last reachable index changes nothing: the index is
  unchanged and no new animation target is set. The index is unchanged, but
  \<^verbatim>\<open>animateToOffset\<close> is called all the same. A slider mounted with \<^verbatim>\<open>defaultIndex\<close> 6 in the
  example is at the last reachable index with offset 0 and no animation; \<^verbatim>\<open>next()\<close> then
  starts an animation from 0 towards \<open>-648\<close> and calls \<^verbatim>\<open>onSlideChange(6)\<close>.
\<close>

theorem handleNext_at_last_index_counterexample:
  "currentIndex (exampleSlider\<lparr>currentIndex := Fin 6\<rparr>)
     = items_length (exampleSlider\<lparr>currentIndex := Fin 6\<rparr>) - visibleItems (exampleSlider\<lparr>currentIndex := Fin 6\<rparr>)
   \<and> pendingFrames (exampleSlider\<lparr>currentIndex := Fin 6\<rparr>) = []
   \<and> pendingFrames (handleNext 0 (exampleSlider\<lparr>currentIndex := Fin 6\<rparr>))
       = [(1, \<lparr>startOffset = Fin 0, distance = Fin (- 648), startTime = Fin 0\<rparr>)]
   \<and> calls (handleNext 0 (exampleSlider\<lparr>currentIndex := Fin 6\<rparr>)) = [OnSlideChange (Fin 6)]"
  by (simp add: Let_def handleNext_def onSlideChange_def animateToOffset_def cancelAnimationFrame_def
      requestAnimationFrame_def getItemWidth_def peekAdjustment_def items_length_def
      exampleSlider_def exampleConfig_def)

text \<open>
  Claim C5, amended: \<^verbatim>\<open>next()\<close> at the last reachable index leaves the index unchanged,
  and the animation it starts is towards the offset of that unchanged index.
\<close>

theorem handleNext_at_last_index:
  assumes "visibleItems s = Fin v" "currentIndex s = items_length s - visibleItems s"
  shows "currentIndex (handleNext now s) = currentIndex s
       \<and> animationRef (handleNext now s) = nextHandle s
       \<and> last (pendingFrames (handleNext now s)) =
               (nextHandle s,
                \<lparr>startOffset = sliderOffset s,
                 distance = (- (currentIndex s * (getItemWidth s + gap (config s)))
                             + peekAdjustment s) - sliderOffset s,
                 startTime = Fin now\<rparr>)"
proof -
  have "currentIndex (handleNext now s) = currentIndex s"
    using assms by (simp add: handleNext_fields items_length_def)
  then show ?thesis by (simp add: handleNext_fields del: minus_jsnum_def)
qed

theorem handleNext_at_last_index_witness:
  "currentIndex (handleNext 0 (exampleSlider\<lparr>currentIndex := Fin 6\<rparr>)) = Fin 6
   \<and> last (pendingFrames (handleNext 0 (exampleSlider\<lparr>currentIndex := Fin 6\<rparr>)))
       = (1, \<lparr>startOffset = Fin 0, distance = Fin (- 648), startTime = Fin 0\<rparr>)"
  using handleNext_at_last_index [of "exampleSlider\<lparr>currentIndex := Fin 6\<rparr>" 4 0]
  by (simp add: getItemWidth_def peekAdjustment_def items_length_def exampleSlider_def
      exampleConfig_def)

text \<open>
  Claim C8: in the example, three calls of \<^verbatim>\<open>next()\<close> from index 0, with any animation
  frames before and between them, give the indices 1, 2, 3 and start animations towards
  \<open>-108\<close>, \<open>-216\<close> and \<open>-324\<close> (the distance of an animation is its target minus the
  offset at the call).
\<close>

theorem next_three_times_example:
  "(let s1 = handleNext t1 (fold runFrame f0 exampleSlider);
        s2 = handleNext t2 (fold runFrame f1 s1);
        s3 = handleNext t3 (fold runFrame f2 s2)
    in currentIndex s1 = Fin 1 \<and> currentIndex s2 = Fin 2 \<and> currentIndex s3 = Fin 3
      \<and> snd (last (pendingFrames s1)) =
          \<lparr>startOffset = sliderOffset (fold runFrame f0 exampleSlider),
           distance = Fin (- 108) - sliderOffset (fold runFrame f0 exampleSlider),
           startTime = Fin t1\<rparr>
      \<and> snd (last (pendingFrames s2)) =
          \<lparr>startOffset = sliderOffset (fold runFrame f1 s1),
           distance = Fin (- 216) - sliderOffset (fold runFrame f1 s1),
           startTime = Fin t2\<rparr>
      \<and> snd (last (pendingFrames s3)) =
          \<lparr>startOffset = sliderOffset (fold runFrame f2 s2),
           distance = Fin (- 324) - sliderOffset (fold runFrame f2 s2),
           startTime = Fin t3\<rparr>
      \<and> calls s3 = [OnSlideChange (Fin 1), OnSlideChange (Fin 2), OnSlideChange (Fin 3)])"
proof -
  define s1 where "s1 = handleNext t1 (fold runFrame f0 exampleSlider)"
  define s2 where "s2 = handleNext t2 (fold runFrame f1 s1)"
  define s3 where "s3 = handleNext t3 (fold runFrame f2 s2)"
  have e: "items_length exampleSlider = Fin 10" "visibleItems exampleSlider = Fin 4"
    "currentIndex exampleSlider = Fin 0" "getItemWidth exampleSlider = Fin 100"
    "gap (config exampleSlider) = Fin 8" "peekAdjustment exampleSlider = Fin 0"
    "hasOnSlideChange exampleSlider" "calls exampleSlider = []"
    by (simp_all add: items_length_def getItemWidth_def peekAdjustment_def exampleSlider_def
        exampleConfig_def)
  note n1 = handleNext_after_frames [of t1 f0 exampleSlider, folded s1_def]
  have g1: "getItemWidth s1 = Fin 100" "items_length s1 = Fin 10" "peekAdjustment s1 = Fin 0"
    using geometry_cong [OF n1(4-8)] e by simp_all
  have i1: "currentIndex s1 = Fin 1" using n1(1) e by simp
  have c1: "calls s1 = [OnSlideChange (Fin 1)]" using n1(2) e by simp
  have p1: "snd (last (pendingFrames s1)) =
          \<lparr>startOffset = sliderOffset (fold runFrame f0 exampleSlider),
           distance = Fin (- 108) - sliderOffset (fold runFrame f0 exampleSlider),
           startTime = Fin t1\<rparr>"
    using n1(3) e by (simp del: minus_jsnum_def)
  note n2 = handleNext_after_frames [of t2 f1 s1, folded s2_def]
  have g2: "getItemWidth s2 = Fin 100" "items_length s2 = Fin 10" "peekAdjustment s2 = Fin 0"
    using geometry_cong [OF n2(4-8)] g1 by simp_all
  have v1: "visibleItems s1 = Fin 4" "gap (config s1) = Fin 8" "hasOnSlideChange s1"
    using n1(4,7,9) e by simp_all
  have i2: "currentIndex s2 = Fin 2" using n2(1) g1 v1 i1 by simp
  have c2: "calls s2 = [OnSlideChange (Fin 1), OnSlideChange (Fin 2)]"
    using n2(2) g1 v1 i1 c1 by simp
  have p2: "snd (last (pendingFrames s2)) =
          \<lparr>startOffset = sliderOffset (fold runFrame f1 s1),
           distance = Fin (- 216) - sliderOffset (fold runFrame f1 s1),
           startTime = Fin t2\<rparr>"
    using n2(3) g1 v1 i1 by (simp del: minus_jsnum_def)
  note n3 = handleNext_after_frames [of t3 f2 s2, folded s3_def]
  have v2: "visibleItems s2 = Fin 4" "gap (config s2) = Fin 8" "hasOnSlideChange s2"
    using n2(4,7,9) v1 by simp_all
  have i3: "currentIndex s3 = Fin 3" using n3(1) g2 v2 i2 by simp
  have c3: "calls s3 = [OnSlideChange (Fin 1), OnSlideChange (Fin 2), OnSlideChange (Fin 3)]"
    using n3(2) g2 v2 i2 c2 by simp
  have p3: "snd (last (pendingFrames s3)) =
          \<lparr>startOffset = sliderOffset (fold runFrame f2 s2),
           distance = Fin (- 324) - sliderOffset (fold runFrame f2 s2),
           startTime = Fin t3\<rparr>"
    using n3(3) g2 v2 i2 by (simp del: minus_jsnum_def)
  show ?thesis
    unfolding Let_def s1_def [symmetric] s2_def [symmetric] s3_def [symmetric]
    using i1 i2 i3 p1 p2 p3 c3 by simp
qed

text \<open>
  Claim C9: when there are fewer items than visible items, \<^verbatim>\<open>next()\<close> from a non-negative
  index sets the index to \<open>items.length - visibleItems\<close>, which is negative.
\<close>

theorem handleNext_negative_index:
  assumes "items_length s < visibleItems s" "Fin 0 \<le> currentIndex s"
  shows "currentIndex (handleNext now s) = items_length s - visibleItems s
         \<and> getCurrentIndex (handleNext now s) < Fin 0"
  using assms
  by (cases "visibleItems s"; cases "currentIndex s")
     (simp_all add: handleNext_fields items_length_def getCurrentIndex_def)

theorem handleNext_negative_index_witness:
  "items_length (exampleSlider\<lparr>visibleItems := Fin 12\<rparr>)
     < visibleItems (exampleSlider\<lparr>visibleItems := Fin 12\<rparr>)
   \<and> Fin 0 \<le> currentIndex (exampleSlider\<lparr>visibleItems := Fin 12\<rparr>)
   \<and> getCurrentIndex (handleNext 0 (exampleSlider\<lparr>visibleItems := Fin 12\<rparr>)) = Fin (- 2)"
  using handleNext_negative_index [of "exampleSlider\<lparr>visibleItems := Fin 12\<rparr>" 0]
  by (simp add: items_length_def getCurrentIndex_def exampleSlider_def)

text \<open>
  Claim C10: every call of \<^verbatim>\<open>next()\<close> or \<^verbatim>\<open>previous()\<close>, at a boundary or not, calls
  \<^verbatim>\<open>onSlideChange\<close> (when the prop is given) with the resulting index and starts a new
  animation towards that index's offset.
\<close>

theorem navigation_notifies_and_animates:
  assumes "hasOnSlideChange s"
  shows "(let s' = handleNext now s in
           calls s' = calls s @ [OnSlideChange (currentIndex s')]
           \<and> animationRef s' = nextHandle s
           \<and> last (pendingFrames s') =
               (nextHandle s,
                \<lparr>startOffset = sliderOffset s,
                 distance = (- (currentIndex s' * (getItemWidth s + gap (config s)))
                             + peekAdjustment s) - sliderOffset s,
                 startTime = Fin now\<rparr>))
       \<and> (let s' = handlePrevious now s in
           calls s' = calls s @ [OnSlideChange (currentIndex s')]
           \<and> animationRef s' = nextHandle s
           \<and> last (pendingFrames s') =
               (nextHandle s,
                \<lparr>startOffset = sliderOffset s,
                 distance = (- (currentIndex s' * (getItemWidth s + gap (config s)))
                             + peekAdjustment s) - sliderOffset s,
                 startTime = Fin now\<rparr>))"
  using assms by (simp add: Let_def handleNext_fields handlePrevious_fields del: minus_jsnum_def)

theorem navigation_notifies_and_animates_witness:
  "calls (handlePrevious 0 exampleSlider) = [OnSlideChange (Fin 0)]
   \<and> last (pendingFrames (handlePrevious 0 exampleSlider))
       = (1, \<lparr>startOffset = Fin 0, distance = Fin 0, startTime = Fin 0\<rparr>)
   \<and> calls (handleNext 0 (exampleSlider\<lparr>currentIndex := Fin 6\<rparr>)) = [OnSlideChange (Fin 6)]
   \<and> last (pendingFrames (handleNext 0 (exampleSlider\<lparr>currentIndex := Fin 6\<rparr>)))
       = (1, \<lparr>startOffset = Fin 0, distance = Fin (- 648), startTime = Fin 0\<rparr>)"
  using navigation_notifies_and_animates [of exampleSlider 0]
    navigation_notifies_and_animates [of "exampleSlider\<lparr>currentIndex := Fin 6\<rparr>" 0]
  by (simp add: Let_def handleNext_fields handlePrevious_fields getItemWidth_def
      peekAdjustment_def items_length_def exampleSlider_def exampleConfig_def)

end
